theory Spec2Isabelle
  imports Complex_Main
begin

section \<open>Outcomes of a method call\<close>

text \<open>
  A method of the control stack either returns a value, raises an exception, or never
  gets past an \<^verbatim>\<open>acquire\<close> of a lock that is already held.  Every component guards
  its methods with \<^verbatim>\<open>threading.Lock()\<close>, which is not re-entrant: a thread that
  holds the lock and enters a second \<^verbatim>\<open>with self.lock:\<close> waits for itself.  The lock
  is therefore part of the state, and \<open>Blocks\<close> is the outcome of a call that waits
  at an \<^verbatim>\<open>acquire\<close>.  Console output (\<^verbatim>\<open>print\<close>) is not modelled.
\<close>

datatype exn = WatchdogTimeout | AttributeError

datatype 'a outcome = Returns 'a | Raises exn | Blocks

definition run_stmts :: "('s \<Rightarrow> 's) list \<Rightarrow> 's \<Rightarrow> 's" where
  "run_stmts stmts s = foldl (\<lambda>t f. f t) s stmts"


section \<open>Link Layer: \<^verbatim>\<open>serial_link.py\<close>, class \<^verbatim>\<open>ESP32Serial\<close>\<close>

text \<open>
  \<open>ser\<close> is \<^verbatim>\<open>self.ser\<close>: \<open>None\<close> before the first connect, otherwise the transport
  handle, modelled by the frames whose \<^verbatim>\<open>write\<close> and \<^verbatim>\<open>flush\<close> completed on it, oldest
  first.  The subscriber slots hold whether a callable is installed.  Commands and
  messages are strings of 8-bit characters; the protocol is ASCII.
\<close>

record ESP32Serial =
  connected :: bool
  ser :: "string list option"
  last_ack :: "string option"
  last_ack_time :: real
  on_ack_move :: bool
  on_done_move :: bool
  on_ack_stop :: bool
  on_fault :: bool
  on_heartbeat :: bool
  on_message :: bool

definition newline :: char where
  "newline = CHR 0x0A"

definition endswith_newline :: "string \<Rightarrow> bool" where
  "endswith_newline command = (command \<noteq> [] \<and> last command = newline)"

text \<open>
  \<^verbatim>\<open>ESP32Serial.send\<close>.  Whether the transport's \<^verbatim>\<open>write\<close>/\<^verbatim>\<open>flush\<close> raises is decided
  by the serial library and the device, so it is the argument \<open>write_ok\<close>; the
  \<^verbatim>\<open>except Exception\<close> turns a raise into the result \<open>False\<close>.
\<close>

definition link_send :: "ESP32Serial \<Rightarrow> string \<Rightarrow> bool \<Rightarrow> bool \<times> ESP32Serial" where
  "link_send l command write_ok =
     (if \<not> connected l \<or> ser l = None then (False, l)
      else case ser l of
        None \<Rightarrow> (False, l)
      | Some frames \<Rightarrow>
          if write_ok then
            (True, l\<lparr>ser := Some (frames @
                     [if endswith_newline command then command else command @ [newline]])\<rparr>)
          else (False, l))"

definition transmitted :: "ESP32Serial \<Rightarrow> string list" where
  "transmitted l = (case ser l of None \<Rightarrow> [] | Some frames \<Rightarrow> frames)"


section \<open>Motion Queue: \<^verbatim>\<open>motion_queue.py\<close>, class \<^verbatim>\<open>MotionQueue\<close>\<close>

record MotionQueue =
  serial :: ESP32Serial
  queue :: "string list"
  max_size :: int
  busy :: bool
  current_command :: "string option"
  command_start_time :: real
  commands_sent :: int
  commands_completed :: int
  commands_dropped :: int
  lock :: bool

text \<open>\<^verbatim>\<open>__init__\<close> with \<^verbatim>\<open>_setup_callbacks\<close>, which installs two subscribers on the link.\<close>

definition mq_init :: "ESP32Serial \<Rightarrow> int \<Rightarrow> MotionQueue" where
  "mq_init serial_link bound =
     \<lparr>serial = serial_link\<lparr>on_done_move := True, on_fault := True\<rparr>,
      queue = [], max_size = bound, busy = False, current_command = None,
      command_start_time = 0, commands_sent = 0, commands_completed = 0,
      commands_dropped = 0, lock = False\<rparr>"

text \<open>\<^verbatim>\<open>with self.lock:\<close> around a body; the lock is released on return and on raise.\<close>

definition mq_with_lock ::
  "(MotionQueue \<Rightarrow> 'a outcome \<times> MotionQueue) \<Rightarrow> MotionQueue \<Rightarrow> 'a outcome \<times> MotionQueue" where
  "mq_with_lock body s =
     (if lock s then (Blocks, s)
      else case body (s\<lparr>lock := True\<rparr>) of
             (Blocks, s') \<Rightarrow> (Blocks, s')
           | (r, s') \<Rightarrow> (r, s'\<lparr>lock := False\<rparr>))"

definition mq_add :: "MotionQueue \<Rightarrow> string \<Rightarrow> bool outcome \<times> MotionQueue" where
  "mq_add s command =
     mq_with_lock (\<lambda>s.
       if int (length (queue s)) \<ge> max_size s
       then (Returns False, s\<lparr>commands_dropped := commands_dropped s + 1\<rparr>)
       else (Returns True, s\<lparr>queue := queue s @ [command]\<rparr>)) s"

text \<open>
  The four assignments of the success branch of \<^verbatim>\<open>update\<close>, in source order; each is
  one statement, so another thread can observe the state between any two of them.
\<close>

definition update_assignments :: "string \<Rightarrow> real \<Rightarrow> (MotionQueue \<Rightarrow> MotionQueue) list" where
  "update_assignments command now =
     [\<lambda>s. s\<lparr>busy := True\<rparr>,
      \<lambda>s. s\<lparr>current_command := Some command\<rparr>,
      \<lambda>s. s\<lparr>command_start_time := now\<rparr>,
      \<lambda>s. s\<lparr>commands_sent := commands_sent s + 1\<rparr>]"

text \<open>\<open>now\<close> is the reading of \<^verbatim>\<open>time.time()\<close>, \<open>write_ok\<close> the fate of the write.\<close>

definition mq_update :: "MotionQueue \<Rightarrow> real \<Rightarrow> bool \<Rightarrow> unit outcome \<times> MotionQueue" where
  "mq_update s now write_ok =
     mq_with_lock (\<lambda>s.
       if busy s then (Returns (), s)
       else case queue s of
         [] \<Rightarrow> (Returns (), s)
       | command # rest \<Rightarrow>
           (let s1 = s\<lparr>queue := rest\<rparr>;
                (ok, l) = link_send (serial s1) command write_ok;
                s2 = s1\<lparr>serial := l\<rparr>
            in if ok then (Returns (), run_stmts (update_assignments command now) s2)
               else (Returns (), s2\<lparr>queue := command # queue s2\<rparr>))) s"

definition mq_on_done :: "MotionQueue \<Rightarrow> unit outcome \<times> MotionQueue" where
  "mq_on_done s =
     mq_with_lock (\<lambda>s.
       if \<not> busy s then (Returns (), s)
       else (Returns (), s\<lparr>busy := False, current_command := None,
                            commands_completed := commands_completed s + 1\<rparr>)) s"

definition mq_clear :: "MotionQueue \<Rightarrow> unit outcome \<times> MotionQueue" where
  "mq_clear s = mq_with_lock (\<lambda>s. (Returns (), s\<lparr>queue := []\<rparr>)) s"

definition stop_cmd :: string where
  "stop_cmd = ''$STOP$''"

text \<open>
  \<^verbatim>\<open>emergency_stop\<close> calls \<^verbatim>\<open>self.clear()\<close> inside its own \<^verbatim>\<open>with self.lock:\<close>; the
  statements after the call run only if the call returns.
\<close>

definition mq_emergency_stop :: "MotionQueue \<Rightarrow> bool \<Rightarrow> unit outcome \<times> MotionQueue" where
  "mq_emergency_stop s write_ok =
     mq_with_lock (\<lambda>s.
       case mq_clear s of
         (Returns _, s1) \<Rightarrow>
           (let (ok, l) = link_send (serial s1) stop_cmd write_ok
            in (Returns (), s1\<lparr>serial := l, busy := False, current_command := None\<rparr>))
       | (r, s1) \<Rightarrow> (r, s1)) s"

definition mq_is_busy :: "MotionQueue \<Rightarrow> bool" where
  "mq_is_busy s = busy s"

definition mq_get_queue_size :: "MotionQueue \<Rightarrow> nat" where
  "mq_get_queue_size s = length (queue s)"

text \<open>The dictionary returned by \<^verbatim>\<open>get_stats\<close>, which has no \<^verbatim>\<open>with self.lock:\<close>.\<close>

record queue_stats =
  st_queued :: nat
  st_busy :: bool
  st_sent :: int
  st_completed :: int
  st_dropped :: int
  st_current :: "string option"

definition mq_get_stats :: "MotionQueue \<Rightarrow> queue_stats outcome \<times> MotionQueue" where
  "mq_get_stats s =
     (Returns \<lparr>st_queued = length (queue s), st_busy = busy s, st_sent = commands_sent s,
               st_completed = commands_completed s, st_dropped = commands_dropped s,
               st_current = current_command s\<rparr>, s)"

text \<open>
  The operations named by the queue's state invariant, each with the readings of
  the clock and of the transport it consumes, and the state a call leaves behind
  (also when the call blocks).
\<close>

datatype mq_op = Add string | Update real bool | OnDone | Clear | EmergencyStop bool

fun mq_apply :: "MotionQueue \<Rightarrow> mq_op \<Rightarrow> MotionQueue" where
  "mq_apply s (Add command) = snd (mq_add s command)"
| "mq_apply s (Update now write_ok) = snd (mq_update s now write_ok)"
| "mq_apply s OnDone = snd (mq_on_done s)"
| "mq_apply s Clear = snd (mq_clear s)"
| "mq_apply s (EmergencyStop write_ok) = snd (mq_emergency_stop s write_ok)"

definition mq_run :: "MotionQueue \<Rightarrow> mq_op list \<Rightarrow> MotionQueue" where
  "mq_run s ops = foldl mq_apply s ops"

definition queue_state_inv :: "MotionQueue \<Rightarrow> bool" where
  "queue_state_inv s = ((current_command s \<noteq> None) = busy s)"

text \<open>
  The state another thread can observe while the thread running \<^verbatim>\<open>update\<close> holds the
  lock, has popped the head, has had the send succeed, and has executed the first
  \<open>n\<close> assignments of the success branch.
\<close>

definition mq_update_interrupted :: "nat \<Rightarrow> MotionQueue \<Rightarrow> real \<Rightarrow> MotionQueue" where
  "mq_update_interrupted n s now =
     (case queue s of
        [] \<Rightarrow> s
      | command # rest \<Rightarrow>
          run_stmts (take n (update_assignments command now))
            (s\<lparr>lock := True, queue := rest,
               serial := snd (link_send (serial s) command True)\<rparr>))"


section \<open>Watchdog: \<^verbatim>\<open>watchdog.py\<close>, class \<^verbatim>\<open>Watchdog\<close>\<close>

text \<open>
  Clock readings are reals: the claims below hold for every reading and every
  threshold, so they do not depend on how the floating-point comparison rounds.
  \<open>on_timeout\<close> and \<open>on_recovery\<close> hold whether a subscriber is installed; a subscriber
  is taken not to call back into the watchdog, and an exception it raises is caught
  at the call site.  \<open>timeout_calls\<close> and \<open>recovery_calls\<close> are not fields of the
  class: they record the invocations of the two subscribers (the argument of each
  \<^verbatim>\<open>on_timeout\<close> call, and the number of \<^verbatim>\<open>on_recovery\<close> calls).
\<close>

record Watchdog =
  timeout :: real
  enable_heartbeat :: bool
  last_response :: real
  last_heartbeat :: real
  enabled :: bool
  fault_detected :: bool
  kick_count :: int
  timeout_count :: int
  heartbeat_count :: int
  on_timeout :: bool
  on_recovery :: bool
  wd_lock :: bool
  timeout_calls :: "real list"
  recovery_calls :: nat

definition wd_init :: "real \<Rightarrow> bool \<Rightarrow> real \<Rightarrow> real \<Rightarrow> Watchdog" where
  "wd_init t hb now now' =
     \<lparr>timeout = t, enable_heartbeat = hb, last_response = now, last_heartbeat = now',
      enabled = True, fault_detected = False, kick_count = 0, timeout_count = 0,
      heartbeat_count = 0, on_timeout = False, on_recovery = False, wd_lock = False,
      timeout_calls = [], recovery_calls = 0\<rparr>"

definition wd_with_lock ::
  "(Watchdog \<Rightarrow> 'a outcome \<times> Watchdog) \<Rightarrow> Watchdog \<Rightarrow> 'a outcome \<times> Watchdog" where
  "wd_with_lock body s =
     (if wd_lock s then (Blocks, s)
      else case body (s\<lparr>wd_lock := True\<rparr>) of
             (Blocks, s') \<Rightarrow> (Blocks, s')
           | (r, s') \<Rightarrow> (r, s'\<lparr>wd_lock := False\<rparr>))"

definition wd_kick :: "Watchdog \<Rightarrow> real \<Rightarrow> unit outcome \<times> Watchdog" where
  "wd_kick s now =
     wd_with_lock (\<lambda>s.
       (let s1 = s\<lparr>last_response := now, kick_count := kick_count s + 1\<rparr>
        in if fault_detected s1
           then (Returns (),
                 s1\<lparr>fault_detected := False,
                    recovery_calls := (if on_recovery s1 then recovery_calls s1 + 1
                                       else recovery_calls s1)\<rparr>)
           else (Returns (), s1))) s"

text \<open>\<^verbatim>\<open>heartbeat\<close> calls \<^verbatim>\<open>self.kick()\<close> inside its own \<^verbatim>\<open>with self.lock:\<close>.\<close>

definition wd_heartbeat :: "Watchdog \<Rightarrow> real \<Rightarrow> real \<Rightarrow> unit outcome \<times> Watchdog" where
  "wd_heartbeat s now now' =
     wd_with_lock (\<lambda>s.
       wd_kick (s\<lparr>last_heartbeat := now, heartbeat_count := heartbeat_count s + 1\<rparr>) now') s"

text \<open>
  The fault sequence shared by both branches of \<^verbatim>\<open>check\<close>: set the flag, count, call
  the subscriber with the elapsed time, raise.
\<close>

definition wd_fault :: "Watchdog \<Rightarrow> real \<Rightarrow> unit outcome \<times> Watchdog" where
  "wd_fault s elapsed =
     (Raises WatchdogTimeout,
      s\<lparr>fault_detected := True, timeout_count := timeout_count s + 1,
        timeout_calls := (if on_timeout s then timeout_calls s @ [elapsed]
                          else timeout_calls s)\<rparr>)"

definition wd_check_heartbeat :: "Watchdog \<Rightarrow> real \<Rightarrow> unit outcome \<times> Watchdog" where
  "wd_check_heartbeat s current_time =
     (if enable_heartbeat s then
        (let time_since_heartbeat = current_time - last_heartbeat s;
             heartbeat_timeout = timeout s * 1.5
         in if time_since_heartbeat > heartbeat_timeout then
              (if \<not> fault_detected s then wd_fault s time_since_heartbeat
               else (Returns (), s))
            else (Returns (), s))
      else (Returns (), s))"

definition wd_check :: "Watchdog \<Rightarrow> real \<Rightarrow> unit outcome \<times> Watchdog" where
  "wd_check s now =
     (if \<not> enabled s then (Returns (), s)
      else wd_with_lock (\<lambda>s.
        (let current_time = now;
             time_since_response = current_time - last_response s
         in if time_since_response > timeout s then
              (if \<not> fault_detected s then wd_fault s time_since_response
               else wd_check_heartbeat s current_time)
            else wd_check_heartbeat s current_time)) s)"

definition wd_is_healthy :: "Watchdog \<Rightarrow> real \<Rightarrow> bool outcome \<times> Watchdog" where
  "wd_is_healthy s now =
     wd_with_lock (\<lambda>s. (Returns (now - last_response s < timeout s), s)) s"

definition wd_enable :: "Watchdog \<Rightarrow> real \<Rightarrow> unit outcome \<times> Watchdog" where
  "wd_enable s now =
     wd_with_lock (\<lambda>s. (Returns (), s\<lparr>enabled := True, last_response := now\<rparr>)) s"

definition wd_disable :: "Watchdog \<Rightarrow> unit outcome \<times> Watchdog" where
  "wd_disable s = wd_with_lock (\<lambda>s. (Returns (), s\<lparr>enabled := False\<rparr>)) s"

definition wd_reset :: "Watchdog \<Rightarrow> real \<Rightarrow> real \<Rightarrow> unit outcome \<times> Watchdog" where
  "wd_reset s now now' =
     wd_with_lock (\<lambda>s.
       (Returns (), s\<lparr>last_response := now, last_heartbeat := now',
                       fault_detected := False\<rparr>)) s"

record watchdog_stats =
  ws_enabled :: bool
  ws_healthy :: bool
  ws_time_since_response :: real
  ws_time_since_heartbeat :: real
  ws_kick_count :: int
  ws_timeout_count :: int
  ws_heartbeat_count :: int
  ws_fault_detected :: bool

text \<open>\<^verbatim>\<open>get_stats\<close> calls \<^verbatim>\<open>self.is_healthy()\<close> inside its own \<^verbatim>\<open>with self.lock:\<close>.\<close>

definition wd_get_stats :: "Watchdog \<Rightarrow> real \<Rightarrow> real \<Rightarrow> watchdog_stats outcome \<times> Watchdog" where
  "wd_get_stats s now now' =
     wd_with_lock (\<lambda>s.
       (let current_time = now
        in case wd_is_healthy s now' of
             (Returns healthy, s1) \<Rightarrow>
               (Returns \<lparr>ws_enabled = enabled s, ws_healthy = healthy,
                         ws_time_since_response = current_time - last_response s1,
                         ws_time_since_heartbeat = current_time - last_heartbeat s1,
                         ws_kick_count = kick_count s1,
                         ws_timeout_count = timeout_count s1,
                         ws_heartbeat_count = heartbeat_count s1,
                         ws_fault_detected = fault_detected s1\<rparr>, s1)
           | (Raises e, s1) \<Rightarrow> (Raises e, s1)
           | (Blocks, s1) \<Rightarrow> (Blocks, s1))) s"

definition wd_set_timeout :: "Watchdog \<Rightarrow> real \<Rightarrow> unit outcome \<times> Watchdog" where
  "wd_set_timeout s t = wd_with_lock (\<lambda>s. (Returns (), s\<lparr>timeout := t\<rparr>)) s"

datatype wd_op =
    Kick real | Heartbeat real real | Check real | IsHealthy real | Enable real
  | Disable | Reset real real | GetStats real real | SetTimeout real

fun wd_apply :: "Watchdog \<Rightarrow> wd_op \<Rightarrow> Watchdog" where
  "wd_apply s (Kick now) = snd (wd_kick s now)"
| "wd_apply s (Heartbeat now now') = snd (wd_heartbeat s now now')"
| "wd_apply s (Check now) = snd (wd_check s now)"
| "wd_apply s (IsHealthy now) = snd (wd_is_healthy s now)"
| "wd_apply s (Enable now) = snd (wd_enable s now)"
| "wd_apply s Disable = snd (wd_disable s)"
| "wd_apply s (Reset now now') = snd (wd_reset s now now')"
| "wd_apply s (GetStats now now') = snd (wd_get_stats s now now')"
| "wd_apply s (SetTimeout t) = snd (wd_set_timeout s t)"

fun is_kick :: "wd_op \<Rightarrow> bool" where
  "is_kick (Kick _) = True"
| "is_kick (Heartbeat _ _) = True"
| "is_kick _ = False"

fun is_check :: "wd_op \<Rightarrow> bool" where
  "is_check (Check _) = True"
| "is_check _ = False"

fun is_reset :: "wd_op \<Rightarrow> bool" where
  "is_reset (Reset _ _) = True"
| "is_reset _ = False"

definition wd_run :: "Watchdog \<Rightarrow> wd_op list \<Rightarrow> Watchdog" where
  "wd_run s ops = foldl wd_apply s ops"

text \<open>No operation of the list is a \<^verbatim>\<open>kick\<close>, a \<^verbatim>\<open>heartbeat\<close> or a \<^verbatim>\<open>reset\<close>.\<close>

definition no_kick_or_reset :: "wd_op list \<Rightarrow> bool" where
  "no_kick_or_reset ops = list_all (\<lambda>opn. \<not> is_kick opn \<and> \<not> is_reset opn) ops"


section \<open>Link Layer: message dispatch (\<^verbatim>\<open>ESP32Serial._handle_message\<close>)\<close>

text \<open>Python's \<^verbatim>\<open>s.split(c, 1)\<close> for a one-character separator, and \<^verbatim>\<open>s.startswith(p)\<close>.\<close>

definition py_split1 :: "char \<Rightarrow> string \<Rightarrow> string list" where
  "py_split1 c s =
     (if c \<in> set s then [takeWhile (\<lambda>x. x \<noteq> c) s, tl (dropWhile (\<lambda>x. x \<noteq> c) s)]
      else [s])"

definition startswith :: "string \<Rightarrow> string \<Rightarrow> bool" where
  "startswith s p = (take (length p) s = p)"

text \<open>
  A subscriber invocation made by the dispatcher, with its argument.  An exception
  raised by a subscriber is caught at the call site, so the invocations made do not
  depend on what the subscribers do.
\<close>

datatype event =
    Message string | AckMove | DoneMove | AckStop | Fault string | HeartbeatMsg

definition handle_message :: "ESP32Serial \<Rightarrow> string \<Rightarrow> real \<Rightarrow> event list \<times> ESP32Serial" where
  "handle_message l msg now =
     (let l1 = l\<lparr>last_ack := Some msg, last_ack_time := now\<rparr>;
          generic = (if on_message l1 then [Message msg] else []);
          specific =
            (if msg = ''ACK:MOVE'' then (if on_ack_move l1 then [AckMove] else [])
             else if msg = ''DONE:MOVE'' then (if on_done_move l1 then [DoneMove] else [])
             else if msg = ''ACK:STOP'' then (if on_ack_stop l1 then [AckStop] else [])
             else if startswith msg ''FAULT:'' then
               (let fault_type = (if CHR '':'' \<in> set msg then py_split1 (CHR '':'') msg ! 1
                                  else ''UNKNOWN'')
                in if on_fault l1 then [Fault fault_type] else [])
             else if msg = ''HB'' then (if on_heartbeat l1 then [HeartbeatMsg] else [])
             else [])
      in (generic @ specific, l1))"


section \<open>Orchestrator: \<^verbatim>\<open>esp32_comm.py\<close>, class \<^verbatim>\<open>ESP32Communicator\<close>\<close>

record log_entry =
  le_timestamp :: real
  le_command :: string
  le_sent :: bool

text \<open>
  \<^verbatim>\<open>self.serial_link\<close> and \<^verbatim>\<open>self.motion_queue.serial\<close> are one object.  The model keeps
  the link inside the queue and copies it back into \<open>serial_link\<close> after every call
  on the queue, so both names always show the same link.
\<close>

record ESP32Communicator =
  is_connected :: bool
  serial_link :: "ESP32Serial option"
  motion_queue :: "MotionQueue option"
  command_log :: "log_entry list"
  max_log_size :: int

text \<open>Python's \<^verbatim>\<open>xs[i:]\<close>; a negative \<open>i\<close> counts from the end.\<close>

definition py_slice_from :: "'a list \<Rightarrow> int \<Rightarrow> 'a list" where
  "py_slice_from xs i =
     (if i < 0 then drop (nat (int (length xs) + i)) xs else drop (nat i) xs)"

definition log_command :: "ESP32Communicator \<Rightarrow> string \<Rightarrow> bool \<Rightarrow> real \<Rightarrow> ESP32Communicator" where
  "log_command c command_string was_sent now =
     (let c1 = c\<lparr>command_log := command_log c @
                 [\<lparr>le_timestamp = now, le_command = command_string, le_sent = was_sent\<rparr>]\<rparr>
      in if int (length (command_log c1)) > max_log_size c1
         then c1\<lparr>command_log := py_slice_from (command_log c1) (- max_log_size c1)\<rparr>
         else c1)"

definition with_queue :: "ESP32Communicator \<Rightarrow> MotionQueue \<Rightarrow> ESP32Communicator" where
  "with_queue c q = c\<lparr>motion_queue := Some q, serial_link := Some (serial q)\<rparr>"

text \<open>
  \<^verbatim>\<open>send_command\<close>; \<open>now\<close> is the clock reading taken by \<^verbatim>\<open>_log_command\<close>, \<open>write_ok\<close>
  the fate of a transport write, should one be attempted.
\<close>

definition send_command ::
  "ESP32Communicator \<Rightarrow> string \<Rightarrow> bool \<Rightarrow> real \<Rightarrow> bool \<Rightarrow> bool outcome \<times> ESP32Communicator" where
  "send_command c command_string priority now write_ok =
     (if \<not> is_connected c then (Returns False, log_command c command_string False now)
      else if priority then
        (case motion_queue c of
           Some q \<Rightarrow>
             (case mq_emergency_stop q write_ok of
                (Returns _, q') \<Rightarrow>
                  (Returns True, log_command (with_queue c q') command_string True now)
              | (Raises e, q') \<Rightarrow> (Raises e, with_queue c q')
              | (Blocks, q') \<Rightarrow> (Blocks, with_queue c q'))
         | None \<Rightarrow>
             (case serial_link c of
                None \<Rightarrow> (Raises AttributeError, c)
              | Some l \<Rightarrow>
                  (let (ok, l') = link_send l command_string write_ok
                   in (Returns True,
                       log_command (c\<lparr>serial_link := Some l'\<rparr>) command_string True now))))
      else
        (case motion_queue c of
           Some q \<Rightarrow>
             (case mq_add q command_string of
                (Returns success, q') \<Rightarrow>
                  (Returns success,
                   if success then log_command (with_queue c q') command_string False now
                   else with_queue c q')
              | (Raises e, q') \<Rightarrow> (Raises e, with_queue c q')
              | (Blocks, q') \<Rightarrow> (Blocks, with_queue c q'))
         | None \<Rightarrow>
             (case serial_link c of
                None \<Rightarrow> (Raises AttributeError, c)
              | Some l \<Rightarrow>
                  (let (ok, l') = link_send l command_string write_ok
                   in (Returns ok, c\<lparr>serial_link := Some l'\<rparr>)))))"

text \<open>
  The queue half of one iteration of \<^verbatim>\<open>_update_worker\<close>: the call of
  \<^verbatim>\<open>self.motion_queue.update()\<close>, which is where a queued command is transmitted.
\<close>

definition worker_update :: "ESP32Communicator \<Rightarrow> real \<Rightarrow> bool \<Rightarrow> ESP32Communicator" where
  "worker_update c now write_ok =
     (case motion_queue c of
        None \<Rightarrow> c
      | Some q \<Rightarrow> with_queue c (snd (mq_update q now write_ok)))"

text \<open>What the link of the orchestrator has put on the wire.\<close>

definition comm_transmitted :: "ESP32Communicator \<Rightarrow> string list" where
  "comm_transmitted c = (case serial_link c of None \<Rightarrow> [] | Some l \<Rightarrow> transmitted l)"


section \<open>Concrete states used in the examples\<close>

text \<open>A connected link with an open transport and nothing written yet.\<close>

definition link0 :: ESP32Serial where
  "link0 = \<lparr>connected = True, ser = Some [], last_ack = None, last_ack_time = 0,
            on_ack_move = False, on_done_move = False, on_ack_stop = False,
            on_fault = False, on_heartbeat = False, on_message = False\<rparr>"

text \<open>A fresh queue with two commands added, as in the module's own test 4.\<close>

definition queue2 :: MotionQueue where
  "queue2 = mq_run (mq_init link0 10) [Add ''$HOME$'', Add ''$STATUS?$'']"

text \<open>A fresh queue of bound 1, and the same queue when it is full.\<close>

definition queue_free :: MotionQueue where
  "queue_free = mq_init link0 1"

definition queue_full :: MotionQueue where
  "queue_full = queue_free\<lparr>queue := [''$HOME$'']\<rparr>"

text \<open>A queue in flight: \<open>queue2\<close> after one successful \<^verbatim>\<open>update\<close> at time 1.\<close>

definition queue_busy :: MotionQueue where
  "queue_busy = mq_apply queue2 (Update 1 True)"

text \<open>A link that is not connected, and a fresh queue on it holding one command.\<close>

definition link_down :: ESP32Serial where
  "link_down = link0\<lparr>connected := False\<rparr>"

definition queue_down :: MotionQueue where
  "queue_down = (mq_init link_down 10)\<lparr>queue := [''$HOME$'']\<rparr>"

text \<open>
  A watchdog with timeout 1 s, heartbeat monitoring and a timeout subscriber, created
  at time 0; the same watchdog after a \<^verbatim>\<open>check()\<close> at time 1.6 s.
\<close>

definition wd0 :: Watchdog where
  "wd0 = (wd_init 1 True 0 0)\<lparr>on_timeout := True\<rparr>"

definition wd_faulted :: Watchdog where
  "wd_faulted = wd_apply wd0 (Check 1.6)"

text \<open>A connected orchestrator whose queue holds four commands.\<close>

definition queue4 :: MotionQueue where
  "queue4 = mq_run (mq_init link0 100)
              [Add ''$HOME$'', Add ''$STATUS?$'', Add ''$HOME$'', Add ''$STATUS?$'']"

definition comm4 :: ESP32Communicator where
  "comm4 = \<lparr>is_connected = True, serial_link = Some (serial queue4),
            motion_queue = Some queue4, command_log = [], max_log_size = 1000\<rparr>"


section \<open>Link Layer: send\<close>

lemma link_send_cases:
  "link_send l c w =
     (if connected l \<and> ser l \<noteq> None \<and> w
      then (True, l\<lparr>ser := Some (the (ser l) @
                    [if endswith_newline c then c else c @ [newline]])\<rparr>)
      else (False, l))"
  by (auto simp: link_send_def split: option.splits)

lemma link_send_failure_keeps_link: "\<not> fst (link_send l c w) \<Longrightarrow> snd (link_send l c w) = l"
  by (auto simp: link_send_cases split: if_splits)

lemma link_send_link0:
  "link_send (link0\<lparr>on_done_move := True, on_fault := True\<rparr>) c w =
     (w, if w then link0\<lparr>on_done_move := True, on_fault := True,
                        ser := Some [if endswith_newline c then c else c @ [newline]]\<rparr>
         else link0\<lparr>on_done_move := True, on_fault := True\<rparr>)"
  by (simp add: link_send_cases link0_def)


section \<open>Motion Queue: nested locking\<close>

text \<open>
  \<^verbatim>\<open>clear\<close> waits when the lock is held, and \<^verbatim>\<open>emergency_stop\<close> calls it while holding
  the lock: from every state \<^verbatim>\<open>emergency_stop\<close> stops at the inner \<^verbatim>\<open>acquire\<close>, before
  anything is cleared, sent or reset, and the lock stays held.
\<close>

lemma mq_clear_blocks_when_locked: "lock s \<Longrightarrow> mq_clear s = (Blocks, s)"
  by (simp add: mq_clear_def mq_with_lock_def)

lemma mq_clear_when_free: "\<not> lock s \<Longrightarrow> mq_clear s = (Returns (), s\<lparr>queue := []\<rparr>)"
  by (simp add: mq_clear_def mq_with_lock_def)

lemma mq_emergency_stop_blocks: "mq_emergency_stop s w = (Blocks, s\<lparr>lock := True\<rparr>)"
  by (simp add: mq_emergency_stop_def mq_with_lock_def mq_clear_def)

lemma queue2_eq:
  "queue2 = (mq_init link0 10)\<lparr>queue := [''$HOME$'', ''$STATUS?$'']\<rparr>"
  by (simp add: queue2_def mq_run_def mq_add_def mq_with_lock_def mq_init_def)


lemma run_update_assignments:
  "run_stmts (update_assignments c now) s =
     s\<lparr>busy := True, current_command := Some c, command_start_time := now,
       commands_sent := commands_sent s + 1\<rparr>"
  by (simp add: run_stmts_def update_assignments_def)

lemma queue_busy_eq:
  "queue_busy =
     (mq_init link0 10)
       \<lparr>serial := link0\<lparr>on_done_move := True, on_fault := True,
                        ser := Some [''$HOME$'' @ [newline]]\<rparr>,
        queue := [''$STATUS?$''], busy := True, current_command := Some ''$HOME$'',
        command_start_time := 1, commands_sent := 1\<rparr>"
  by (simp add: queue_busy_def queue2_eq mq_update_def mq_with_lock_def mq_init_def
      link_send_link0 run_update_assignments endswith_newline_def newline_def)


section \<open>Motion Queue: the state invariant\<close>

lemma queue_state_inv_init: "queue_state_inv (mq_init l b)"
  by (simp add: queue_state_inv_def mq_init_def)

lemma queue_state_inv_step: "queue_state_inv s \<Longrightarrow> queue_state_inv (mq_apply s opn)"
  by (cases opn)
     (auto simp: queue_state_inv_def mq_add_def mq_update_def mq_on_done_def mq_clear_def
        mq_emergency_stop_blocks mq_with_lock_def run_stmts_def update_assignments_def Let_def
        split: list.splits prod.splits)

lemma queue_state_inv_run: "queue_state_inv s \<Longrightarrow> queue_state_inv (mq_run s ops)"
  unfolding mq_run_def
  by (induction ops arbitrary: s) (simp_all add: queue_state_inv_step)

text \<open>
  Claim C1.  The queue-state invariant, \<^verbatim>\<open>current_command\<close> is not \<^verbatim>\<open>None\<close> exactly when
  \<^verbatim>\<open>busy\<close> is true, holds for a freshly constructed queue, is preserved by each of
  \<^verbatim>\<open>add\<close>, \<^verbatim>\<open>update\<close>, \<^verbatim>\<open>on_done\<close>, \<^verbatim>\<open>clear\<close> and \<^verbatim>\<open>emergency_stop\<close> from any state that
  satisfies it, whatever the clock reads and whether or not the transport write
  succeeds, and therefore holds after every sequence of these operations.
\<close>

theorem queue_state_invariant:
  "queue_state_inv (mq_init l b) \<and>
   (queue_state_inv s \<longrightarrow> queue_state_inv (mq_apply s opn)) \<and>
   queue_state_inv (mq_run (mq_init l b) ops)"
  by (simp add: queue_state_inv_init queue_state_inv_step queue_state_inv_run)

theorem queue_state_invariant_witness:
  "queue_state_inv (mq_apply queue2 (Update 1 True)) \<and>
   busy (mq_apply queue2 (Update 1 True)) \<and>
   queue_state_inv (mq_apply (mq_apply queue2 (Update 1 True)) OnDone) \<and>
   \<not> busy (mq_apply (mq_apply queue2 (Update 1 True)) OnDone) \<and>
   queue_state_inv (mq_run (mq_init link0 10) [Add ''$HOME$'', Update 1 True, OnDone, Clear])"
proof -
  have b: "busy (mq_apply queue2 (Update 1 True))"
    by (simp add: queue2_eq mq_update_def mq_with_lock_def mq_init_def link_send_link0
        run_stmts_def update_assignments_def)
  have i: "queue_state_inv queue2"
    by (simp add: queue2_def queue_state_inv_run queue_state_inv_init)
  have d: "\<not> busy (mq_apply s OnDone)" if "\<not> lock s" for s
    using that by (simp add: mq_on_done_def mq_with_lock_def)
  have l: "\<not> lock (mq_apply queue2 (Update 1 True))"
    by (simp add: queue2_eq mq_update_def mq_with_lock_def mq_init_def link_send_link0
        run_stmts_def update_assignments_def)
  from queue_state_invariant [of link0 10 queue2 "Update 1 True"] i
  have 1: "queue_state_inv (mq_apply queue2 (Update 1 True))" by simp
  from queue_state_invariant [of link0 10 "mq_apply queue2 (Update 1 True)" OnDone
      "[Add ''$HOME$'', Update 1 True, OnDone, Clear]"] 1
  show ?thesis using b d [OF l] by simp
qed


section \<open>Motion Queue: emergency stop\<close>

text \<open>
  Claim C2, evaluated on the code.  The claim says that \<^verbatim>\<open>emergency_stop()\<close> leaves the
  queue empty with \<^verbatim>\<open>busy\<close> false and no current command, and sends a stop command.
  On a fresh queue holding two commands the call does not return: it waits at the
  \<^verbatim>\<open>acquire\<close> inside \<^verbatim>\<open>clear()\<close> for the lock it holds itself, the two commands are
  still queued, nothing has been written to the link, and the lock stays held.  On
  the same queue with its first command in flight, \<^verbatim>\<open>busy\<close> stays true and the
  current command stays set.  A second call, made on the state the first one left,
  waits as well.
\<close>

theorem emergency_stop_waits_for_own_lock:
  "fst (mq_emergency_stop queue2 True) = Blocks \<and>
   queue (snd (mq_emergency_stop queue2 True)) = [''$HOME$'', ''$STATUS?$''] \<and>
   transmitted (serial (snd (mq_emergency_stop queue2 True))) = [] \<and>
   lock (snd (mq_emergency_stop queue2 True)) \<and>
   fst (mq_emergency_stop queue_busy True) = Blocks \<and>
   queue (snd (mq_emergency_stop queue_busy True)) = [''$STATUS?$''] \<and>
   busy (snd (mq_emergency_stop queue_busy True)) \<and>
   current_command (snd (mq_emergency_stop queue_busy True)) = Some ''$HOME$'' \<and>
   fst (mq_emergency_stop (snd (mq_emergency_stop queue2 True)) True) = Blocks"
  by (simp add: mq_emergency_stop_blocks queue2_eq queue_busy_eq mq_init_def transmitted_def
      link0_def)


section \<open>Motion Queue: add\<close>

text \<open>
  Claim C4.  Called with the lock free, \<^verbatim>\<open>add(command)\<close> on a queue whose length has
  reached \<^verbatim>\<open>max_size\<close> returns false and changes nothing but the dropped counter, which
  grows by one (queue contents, \<^verbatim>\<open>busy\<close> and \<^verbatim>\<open>current_command\<close> are as before); on a
  shorter queue it returns true and changes nothing but the queue, which is the old
  queue with the command appended at the tail, so one longer.
\<close>

theorem mq_add_spec:
  "\<not> lock s \<Longrightarrow>
   (int (length (queue s)) \<ge> max_size s \<longrightarrow>
      mq_add s c = (Returns False, s\<lparr>commands_dropped := commands_dropped s + 1\<rparr>)) \<and>
   (int (length (queue s)) < max_size s \<longrightarrow>
      mq_add s c = (Returns True, s\<lparr>queue := queue s @ [c]\<rparr>) \<and>
      length (queue (snd (mq_add s c))) = length (queue s) + 1)"
  by (simp add: mq_add_def mq_with_lock_def)

theorem mq_add_spec_witness:
  "mq_add queue_free ''$HOME$'' = (Returns True, queue_full) \<and>
   mq_add queue_full ''$STOP$'' = (Returns False, queue_full\<lparr>commands_dropped := 1\<rparr>)"
  using mq_add_spec [of queue_free "''$HOME$''"] mq_add_spec [of queue_full "''$STOP$''"]
  by (simp add: queue_full_def queue_free_def mq_init_def)


section \<open>Motion Queue: update\<close>

text \<open>
  Claim C5.  Called with the lock free, \<^verbatim>\<open>update()\<close> returns with the state unchanged
  when the queue is busy or empty.  Otherwise it takes the head \<open>c\<close> off the queue and
  calls the link's \<^verbatim>\<open>send\<close> with it.  If the send succeeds, the new state is the old one
  with the link as the send left it, the rest of the queue, \<^verbatim>\<open>busy\<close> true, \<open>c\<close> as the
  current command, the clock reading as start time and the sent counter one higher.
  If the send fails, \<open>c\<close> is put back at the head: the whole state, queue contents
  and \<^verbatim>\<open>busy = False\<close> included, is what it was before the call.
\<close>

theorem mq_update_spec:
  "\<not> lock s \<Longrightarrow>
   (busy s \<or> queue s = [] \<longrightarrow> mq_update s now w = (Returns (), s)) \<and>
   (\<not> busy s \<and> queue s = c # rest \<longrightarrow>
      (fst (link_send (serial s) c w) \<longrightarrow>
         mq_update s now w =
           (Returns (), s\<lparr>serial := snd (link_send (serial s) c w), queue := rest,
                           busy := True, current_command := Some c,
                           command_start_time := now,
                           commands_sent := commands_sent s + 1\<rparr>)) \<and>
      (\<not> fst (link_send (serial s) c w) \<longrightarrow> mq_update s now w = (Returns (), s)))"
  by (auto simp: mq_update_def mq_with_lock_def run_update_assignments link_send_cases
      split: list.splits prod.splits)

theorem mq_update_spec_witness:
  "mq_update queue_busy 2 True = (Returns (), queue_busy) \<and>
   mq_update queue2 1 True = (Returns (), queue_busy) \<and>
   mq_update queue_down 1 True = (Returns (), queue_down)"
  using mq_update_spec [of queue_busy 2 True "''$STATUS?$''" "[]"]
    mq_update_spec [of queue2 1 True "''$HOME$''" "[''$STATUS?$'']"]
    mq_update_spec [of queue_down 1 True "''$HOME$''" "[]"]
  by (simp add: queue_busy_eq queue2_eq queue_down_def link_down_def mq_init_def
      link_send_cases link0_def endswith_newline_def newline_def)


section \<open>Watchdog: nested locking\<close>

text \<open>
  \<^verbatim>\<open>heartbeat\<close> and \<^verbatim>\<open>get_stats\<close> call a method that takes the lock while they hold it,
  so neither returns.
\<close>

lemma wd_kick_blocks_when_locked: "wd_lock s \<Longrightarrow> wd_kick s now = (Blocks, s)"
  by (simp add: wd_kick_def wd_with_lock_def)

lemma wd_heartbeat_blocks:
  "wd_heartbeat s now now' =
     (Blocks, if wd_lock s then s
              else s\<lparr>wd_lock := True, last_heartbeat := now,
                     heartbeat_count := heartbeat_count s + 1\<rparr>)"
  by (simp add: wd_heartbeat_def wd_with_lock_def wd_kick_def)

lemma wd_get_stats_blocks: "wd_get_stats s now now' = (Blocks, s\<lparr>wd_lock := True\<rparr>)"
  by (simp add: wd_get_stats_def wd_with_lock_def wd_is_healthy_def)


section \<open>Watchdog: the fault flag\<close>

lemma fault_set_only_by_check:
  "\<not> is_check opn \<Longrightarrow> \<not> fault_detected s \<Longrightarrow> \<not> fault_detected (wd_apply s opn)"
  by (cases opn)
     (auto simp: wd_kick_def wd_heartbeat_blocks wd_get_stats_blocks wd_is_healthy_def
        wd_enable_def wd_disable_def wd_reset_def wd_set_timeout_def wd_with_lock_def Let_def)

lemma wd_check_faulted:
  "fault_detected s \<Longrightarrow>
   fst (wd_check s now) \<noteq> Raises WatchdogTimeout \<and> snd (wd_check s now) = s"
  by (auto simp: wd_check_def wd_check_heartbeat_def wd_with_lock_def Let_def)

lemma fault_kept:
  "\<not> is_kick opn \<Longrightarrow> \<not> is_reset opn \<Longrightarrow> fault_detected s \<Longrightarrow>
   fault_detected (wd_apply s opn) \<and>
   timeout_count (wd_apply s opn) = timeout_count s \<and>
   timeout_calls (wd_apply s opn) = timeout_calls s"
  by (cases opn)
     (auto simp: wd_check_faulted wd_get_stats_blocks wd_is_healthy_def
        wd_enable_def wd_disable_def wd_set_timeout_def wd_with_lock_def Let_def)

lemma fault_kept_run:
  "no_kick_or_reset ops \<Longrightarrow> fault_detected s \<Longrightarrow>
   fault_detected (wd_run s ops) \<and>
   timeout_count (wd_run s ops) = timeout_count s \<and>
   timeout_calls (wd_run s ops) = timeout_calls s"
  unfolding wd_run_def no_kick_or_reset_def
proof (induction ops arbitrary: s)
  case Nil
  then show ?case by simp
next
  case (Cons a ops)
  from Cons.prems have a: "\<not> is_kick a" "\<not> is_reset a"
    and r: "list_all (\<lambda>opn. \<not> is_kick opn \<and> \<not> is_reset opn) ops"
    by simp_all
  from fault_kept [OF a Cons.prems(2)] Cons.IH [OF r, of "wd_apply s a"]
  show ?case by simp
qed

lemma checks_no_kick_or_reset: "no_kick_or_reset (map Check nows)"
  by (induction nows) (simp_all add: no_kick_or_reset_def)

lemma wd_check_at_most_once:
  "timeout_count (snd (wd_check s now)) \<le> timeout_count s + 1 \<and>
   length (timeout_calls (snd (wd_check s now))) \<le> length (timeout_calls s) + 1"
  by (auto simp: wd_check_def wd_check_heartbeat_def wd_with_lock_def wd_fault_def Let_def)

lemma wd_check_response_breached:
  "enabled s \<Longrightarrow> \<not> wd_lock s \<Longrightarrow> \<not> fault_detected s \<Longrightarrow>
   now - last_response s > timeout s \<Longrightarrow>
   wd_check s now =
     (Raises WatchdogTimeout,
      s\<lparr>fault_detected := True, timeout_count := timeout_count s + 1,
        timeout_calls := (if on_timeout s then timeout_calls s @ [now - last_response s]
                          else timeout_calls s)\<rparr>)"
  by (simp add: wd_check_def wd_with_lock_def wd_fault_def Let_def)

lemma wd_faulted_eq:
  "wd_faulted = wd0\<lparr>fault_detected := True, timeout_count := 1, timeout_calls := [1.6]\<rparr>"
  by (simp add: wd_faulted_def wd0_def wd_init_def wd_check_def wd_with_lock_def
      wd_fault_def Let_def)

text \<open>
  Claim C3, as stated, fails at \<^verbatim>\<open>reset()\<close>: it is not a kick, and it clears the fault
  flag of a faulted watchdog.
\<close>

theorem reset_clears_fault:
  "fault_detected wd_faulted \<and> \<not> is_kick (Reset 2 2) \<and>
   \<not> fault_detected (wd_apply wd_faulted (Reset 2 2))"
  by (simp add: wd_faulted_eq wd0_def wd_init_def wd_reset_def wd_with_lock_def)

text \<open>
  Claim C3, amended.  No watchdog operation other than \<^verbatim>\<open>check()\<close> sets
  \<^verbatim>\<open>fault_detected\<close>: if it is false before the operation it is false after it.  And
  every watchdog operation other than \<^verbatim>\<open>kick()\<close> (with \<^verbatim>\<open>heartbeat()\<close>, which embeds a
  kick) and \<^verbatim>\<open>reset()\<close> keeps a fault: if \<^verbatim>\<open>fault_detected\<close> is true before the operation
  it is true after it.
\<close>

theorem fault_flag_transitions:
  "(\<not> is_check opn \<and> \<not> fault_detected s \<longrightarrow> \<not> fault_detected (wd_apply s opn)) \<and>
   (\<not> is_kick opn' \<and> \<not> is_reset opn' \<and> fault_detected s' \<longrightarrow>
      fault_detected (wd_apply s' opn'))"
  using fault_set_only_by_check [of opn s] fault_kept [of opn' s'] by blast

theorem fault_flag_transitions_witness:
  "\<not> fault_detected wd0 \<and> \<not> fault_detected (wd_apply wd0 (Reset 2 2)) \<and>
   fault_detected wd_faulted \<and> fault_detected (wd_apply wd_faulted (Check 3))"
  using fault_flag_transitions [of "Reset 2 2" wd0 "Check 3" wd_faulted]
  by (simp add: wd_faulted_eq wd0_def wd_init_def)


section \<open>Watchdog: check\<close>

text \<open>
  Claim C6.  One \<^verbatim>\<open>check()\<close> raises the timeout counter by at most one and invokes the
  timeout subscriber at most once.  When the watchdog is enabled and not faulted and
  both the response timeout and the heartbeat timeout (\<^verbatim>\<open>timeout * 1.5\<close>) are breached
  in the same check, the call raises \<^verbatim>\<open>WatchdogTimeout\<close> and changes exactly this:
  \<^verbatim>\<open>fault_detected\<close> goes from false to true, the timeout counter grows by one, and the
  subscriber is invoked once, with the time since the last response.  While the
  watchdog is faulted, no sequence of operations free of \<^verbatim>\<open>kick\<close>, \<^verbatim>\<open>heartbeat\<close> and
  \<^verbatim>\<open>reset\<close>, in particular no run of further \<^verbatim>\<open>check()\<close> calls, invokes the subscriber or
  raises the timeout counter again, and the fault stays.
\<close>

theorem check_fires_once:
  "timeout_count (snd (wd_check s now)) \<le> timeout_count s + 1 \<and>
   length (timeout_calls (snd (wd_check s now))) \<le> length (timeout_calls s) + 1 \<and>
   (enabled s \<and> \<not> wd_lock s \<and> \<not> fault_detected s \<and> enable_heartbeat s \<and> on_timeout s \<and>
    now - last_response s > timeout s \<and> now - last_heartbeat s > timeout s * 1.5 \<longrightarrow>
      wd_check s now =
        (Raises WatchdogTimeout,
         s\<lparr>fault_detected := True, timeout_count := timeout_count s + 1,
           timeout_calls := timeout_calls s @ [now - last_response s]\<rparr>)) \<and>
   (fault_detected s' \<and> no_kick_or_reset ops \<longrightarrow>
      fault_detected (wd_run s' ops) \<and>
      timeout_count (wd_run s' ops) = timeout_count s' \<and>
      timeout_calls (wd_run s' ops) = timeout_calls s') \<and>
   (fault_detected s' \<longrightarrow>
      fault_detected (wd_run s' (map Check nows)) \<and>
      timeout_count (wd_run s' (map Check nows)) = timeout_count s' \<and>
      timeout_calls (wd_run s' (map Check nows)) = timeout_calls s')"
  using wd_check_at_most_once [of s now] wd_check_response_breached [of s now]
    fault_kept_run [of ops s'] fault_kept_run [OF checks_no_kick_or_reset, of s' nows]
  by simp

theorem check_fires_once_witness:
  "wd_check wd0 1.6 = (Raises WatchdogTimeout, wd_faulted) \<and>
   timeout_count wd_faulted = 1 \<and> timeout_calls wd_faulted = [1.6] \<and>
   timeout_count (wd_run wd_faulted [Check 2, IsHealthy 2.5, Check 3]) = 1 \<and>
   timeout_calls (wd_run wd_faulted [Check 2, IsHealthy 2.5, Check 3]) = [1.6] \<and>
   timeout_count (wd_run wd_faulted (map Check [2, 3, 4])) = 1"
  using check_fires_once [of wd0 "1.6" wd_faulted "[Check 2, IsHealthy 2.5, Check 3]" "[2, 3, 4]"]
  by (simp add: wd_faulted_eq wd0_def wd_init_def no_kick_or_reset_def)


section \<open>Link Layer: fault messages\<close>

lemma split_after_fault_prefix:
  "CHR '':'' \<in> set (''FAULT:'' @ r) \<and> py_split1 (CHR '':'') (''FAULT:'' @ r) ! 1 = r"
  by (simp add: py_split1_def)

lemma startswith_fault:
  assumes "startswith msg ''FAULT:''"
  shows "msg = ''FAULT:'' @ drop 6 msg"
proof -
  have len: "length ''FAULT:'' = 6" by simp
  from assms have "take (length ''FAULT:'') msg = ''FAULT:''"
    by (simp only: startswith_def)
  then have "msg = ''FAULT:'' @ drop (length ''FAULT:'') msg"
    by (metis append_take_drop_id)
  then show ?thesis by (simp only: len)
qed

text \<open>
  For every line with the prefix \<^verbatim>\<open>FAULT:\<close> the generic subscriber is called first and
  then the fault subscriber, with everything after the prefix as the reason.
\<close>

lemma handle_fault_message:
  assumes "startswith msg ''FAULT:''" and "on_fault l"
  shows "fst (handle_message l msg now) =
           (if on_message l then [Message msg] else []) @ [Fault (drop 6 msg)]"
proof -
  define r where "r = drop 6 msg"
  from startswith_fault [OF assms(1)] have m: "msg = ''FAULT:'' @ r"
    by (simp add: r_def)
  from assms(1) have sw: "startswith (''FAULT:'' @ r) ''FAULT:''"
    by (simp add: m)
  show ?thesis
    unfolding r_def [symmetric] unfolding m
    using sw assms(2) split_after_fault_prefix [of r]
    by (simp add: handle_message_def Let_def)
qed

text \<open>
  Claim C8, evaluated on the code.  The claim says that for the line \<^verbatim>\<open>FAULT:\<close>, whose
  remainder is empty, the fault subscriber receives the reason \<^verbatim>\<open>UNKNOWN\<close>.  The code
  tests \<^verbatim>\<open>":" in msg\<close>, which holds for every line with that prefix, so the default is
  never taken: the line has the prefix, and the one subscriber call made is the fault
  subscriber with the empty string.
\<close>

theorem empty_fault_reason_is_empty_string:
  "startswith ''FAULT:'' ''FAULT:'' \<and>
   fst (handle_message (link0\<lparr>on_fault := True\<rparr>) ''FAULT:'' 0) = [Fault []] \<and>
   fst (handle_message (link0\<lparr>on_fault := True\<rparr>) ''FAULT:'' 0) \<noteq> [Fault ''UNKNOWN'']"
  by (simp add: handle_message_def startswith_def py_split1_def link0_def)


section \<open>Orchestrator: \<^verbatim>\<open>send_command\<close>\<close>

lemma queue4_eq:
  "queue4 =
     (mq_init link0 100)\<lparr>queue := [''$HOME$'', ''$STATUS?$'', ''$HOME$'', ''$STATUS?$'']\<rparr>"
  by (simp add: queue4_def mq_run_def mq_add_def mq_with_lock_def mq_init_def)

lemma comm4_connected: "is_connected comm4" "motion_queue comm4 = Some queue4"
  by (simp_all add: comm4_def)

text \<open>
  On a connected orchestrator with a queue, the priority path enters
  \<^verbatim>\<open>MotionQueue.emergency_stop()\<close> and stays there: the statements after the call, the
  log entry and \<^verbatim>\<open>return True\<close>, are not reached.
\<close>

lemma send_command_priority_blocks:
  "is_connected c \<Longrightarrow> motion_queue c = Some q \<Longrightarrow>
   send_command c cmd True now w = (Blocks, with_queue c (q\<lparr>lock := True\<rparr>))"
  by (simp add: send_command_def mq_emergency_stop_blocks)

text \<open>
  The non-priority path: a command accepted by the queue is logged with
  \<^verbatim>\<open>sent = False\<close>, and the worker's later \<^verbatim>\<open>update()\<close>, which transmits it, leaves the
  log as it is.
\<close>

lemma send_command_queued:
  assumes "is_connected c" and "motion_queue c = Some q" and "\<not> lock q"
    and "int (length (queue q)) < max_size q"
  shows "send_command c cmd False now w =
           (Returns True,
            log_command (with_queue c (q\<lparr>queue := queue q @ [cmd]\<rparr>)) cmd False now)"
proof -
  from assms(3,4) have "mq_add q cmd = (Returns True, q\<lparr>queue := queue q @ [cmd]\<rparr>)"
    by (simp add: mq_add_def mq_with_lock_def)
  with assms(1,2) show ?thesis by (simp add: send_command_def)
qed

lemma worker_update_keeps_log: "command_log (worker_update c now w) = command_log c"
  by (simp add: worker_update_def with_queue_def split: option.splits)

text \<open>
  Claim C7, evaluated on the code.  The claim says that after
  \<^verbatim>\<open>send_command(cmd, priority=True)\<close> on a connected orchestrator with four commands
  queued, the queue is empty and a stop frame has been transmitted.  The call does
  not return; the queue still holds the four commands, its lock is held, and
  nothing has been written to the link.
\<close>

theorem priority_send_leaves_queue:
  "fst (send_command comm4 ''$STOP$'' True 5 True) = Blocks \<and>
   map_option (\<lambda>q. (length (queue q), lock q))
     (motion_queue (snd (send_command comm4 ''$STOP$'' True 5 True))) = Some (4, True) \<and>
   comm_transmitted (snd (send_command comm4 ''$STOP$'' True 5 True)) = []"
  unfolding send_command_priority_blocks [OF comm4_connected]
  by (simp add: comm4_def with_queue_def queue4_eq mq_init_def comm_transmitted_def
      transmitted_def link0_def)

text \<open>
  Claim C10, evaluated on the code.  The claim says that the priority path of a
  connected orchestrator always returns true and appends a log entry with
  \<^verbatim>\<open>sent = True\<close>.  Whether or not the transport would accept a write, the call
  does not return and the audit log stays empty.
\<close>

theorem priority_send_never_logs:
  "fst (send_command comm4 ''$HOME$'' True 5 w) = Blocks \<and>
   fst (send_command comm4 ''$HOME$'' True 5 w) \<noteq> Returns True \<and>
   command_log (snd (send_command comm4 ''$HOME$'' True 5 w)) = []"
  unfolding send_command_priority_blocks [OF comm4_connected]
  by (simp add: comm4_def with_queue_def)


section \<open>Reads of composite state\<close>

text \<open>
  \<^verbatim>\<open>update\<close> on its success path is \<open>mq_update_interrupted\<close> carried through all four
  assignments, followed by the release of the lock.
\<close>

lemma mq_update_via_interrupted:
  "\<not> lock s \<Longrightarrow> \<not> busy s \<Longrightarrow> queue s = c # rest \<Longrightarrow> fst (link_send (serial s) c True) \<Longrightarrow>
   mq_update s now True = (Returns (), (mq_update_interrupted 4 s now)\<lparr>lock := False\<rparr>)"
  by (auto simp: mq_update_def mq_with_lock_def mq_update_interrupted_def run_stmts_def
      update_assignments_def link_send_cases split: prod.splits)

text \<open>
  Claim C9, evaluated on the code.  The claim says that \<^verbatim>\<open>MotionQueue.get_stats()\<close> and
  \<^verbatim>\<open>Watchdog.get_stats()\<close> take their component's lock for the whole read.  Take the
  queue with two commands while the control loop is inside \<^verbatim>\<open>update()\<close>, holding the
  lock, after \<^verbatim>\<open>self.busy = True\<close> and before \<^verbatim>\<open>self.current_command = command\<close>.  A
  mutation such as \<^verbatim>\<open>add\<close> waits for the lock there, but \<^verbatim>\<open>get_stats()\<close> returns, and
  what it returns is torn: busy with no current command.  \<^verbatim>\<open>Watchdog.get_stats()\<close>
  takes the lock and then waits for it again inside \<^verbatim>\<open>is_healthy()\<close>.
\<close>

theorem get_stats_reads_without_lock:
  "lock (mq_update_interrupted 1 queue2 1) \<and>
   fst (mq_add (mq_update_interrupted 1 queue2 1) ''$HOME$'') = Blocks \<and>
   fst (mq_get_stats (mq_update_interrupted 1 queue2 1)) =
     Returns \<lparr>st_queued = 1, st_busy = True, st_sent = 0, st_completed = 0,
               st_dropped = 0, st_current = None\<rparr> \<and>
   fst (wd_get_stats wd0 1 1) = Blocks"
  by (simp add: mq_update_interrupted_def queue2_eq mq_init_def run_stmts_def
      update_assignments_def mq_add_def mq_with_lock_def mq_get_stats_def wd_get_stats_blocks)

end
